theory Spec2Isabelle
  imports Complex_Main
begin

section \<open>Sales forecasting pipeline (main.py)\<close>

text \<open>
  A shallow embedding of \<^verbatim>\<open>main.py\<close>: \<^verbatim>\<open>load_sales_data\<close>, \<^verbatim>\<open>filter_by_season\<close>,
  \<^verbatim>\<open>forecast_sales\<close> and the forecast axis of \<^verbatim>\<open>plot_forecasts\<close>.

  A data frame is the list of its rows, in row order. A cell that pandas holds as
  NaN or NaT is \<open>None\<close>. A quantity is a rational number: every integer and every
  finite float is one. The arithmetic of the quantity column (int64, which wraps, or
  float64, which rounds) enters where the code computes with quantities, in the sum of
  a bin, and is a parameter there. A Python exception is a value \<open>Inl e\<close> of the
  result.
\<close>

subsection \<open>Exceptions\<close>

datatype py_error = KeyError | ValueError | IndexError | LibraryError string

subsection \<open>Timestamps\<close>

datatype timestamp = Timestamp (ts_year: int) (ts_month: nat) (ts_day: nat)

definition is_leap :: "int \<Rightarrow> bool" where
  "is_leap y = (y mod 4 = 0 \<and> (y mod 100 \<noteq> 0 \<or> y mod 400 = 0))"

definition days_in_month :: "int \<Rightarrow> nat \<Rightarrow> nat" where
  "days_in_month y m =
     (if m = 2 then (if is_leap y then 29 else 28)
      else if m = 4 \<or> m = 6 \<or> m = 9 \<or> m = 11 then 30 else 31)"

text \<open>Months counted from year 0: the position of a timestamp on the monthly grid.\<close>

definition month_index :: "timestamp \<Rightarrow> int" where
  "month_index t = ts_year t * 12 + int (ts_month t) - 1"

text \<open>The month-end timestamp of a grid position: the label of a bin of frequency \<^verbatim>\<open>"M"\<close>.\<close>

definition month_end_of_index :: "int \<Rightarrow> timestamp" where
  "month_end_of_index k =
     Timestamp (k div 12) (nat (k mod 12) + 1) (days_in_month (k div 12) (nat (k mod 12) + 1))"

text \<open>\<^verbatim>\<open>t + pd.DateOffset(months=n)\<close>: the month moves, the day is clipped to the new month.\<close>

definition date_offset_months :: "timestamp \<Rightarrow> int \<Rightarrow> timestamp" where
  "date_offset_months t n =
     (let k = month_index t + n; y = k div 12; m = nat (k mod 12) + 1
      in Timestamp y m (min (ts_day t) (days_in_month y m)))"

text \<open>
  \<^verbatim>\<open>pd.date_range(start=s, periods=n, freq="M")\<close>: \<open>s\<close> is rolled forward to the end of
  its month, then one month end follows the other.
\<close>

definition date_range_M :: "timestamp \<Rightarrow> nat \<Rightarrow> timestamp list" where
  "date_range_M s n = map (\<lambda>i. month_end_of_index (month_index s + int i)) [0..<n]"

text \<open>\<^verbatim>\<open>strftime("%b")\<close>, on a column that may hold NaT.\<close>

definition month_abbr :: "nat \<Rightarrow> string" where
  "month_abbr m =
     [''Jan'', ''Feb'', ''Mar'', ''Apr'', ''May'', ''Jun'',
      ''Jul'', ''Aug'', ''Sep'', ''Oct'', ''Nov'', ''Dec''] ! (m - 1)"

definition strftime_b :: "timestamp option \<Rightarrow> string option" where
  "strftime_b t = map_option (\<lambda>d. month_abbr (ts_month d)) t"

definition dt_year :: "timestamp option \<Rightarrow> int option" where
  "dt_year t = map_option ts_year t"

subsection \<open>Tables\<close>

text \<open>
  The raw table as \<^verbatim>\<open>load_sales_data\<close> sees it after lines 23 to 25 (description and
  product code already cleaned): the month is still text, the quantity is as read.
\<close>

record raw_row =
  raw_PRODUCT_CODE :: int
  raw_PRODUCT_DESCRIPTION :: "string option"
  raw_MONTH :: "string option"
  raw_QUANTITY :: "rat option"

record sales_row =
  PRODUCT_CODE :: int
  PRODUCT_DESCRIPTION :: "string option"
  MONTH :: "timestamp option"
  YEAR :: "int option"
  QUANTITY :: "rat option"

subsection \<open>Loading (lines 27 to 41)\<close>

definition lower_char :: "char \<Rightarrow> char" where
  "lower_char c =
     (case map_of (zip ''ABCDEFGHIJKLMNOPQRSTUVWXYZ'' ''abcdefghijklmnopqrstuvwxyz'') c of
        None \<Rightarrow> c | Some d \<Rightarrow> d)"

definition month_names :: "(string \<times> nat) list" where
  "month_names =
     [(''jan'', 1), (''feb'', 2), (''mar'', 3), (''apr'', 4), (''may'', 5), (''jun'', 6),
      (''jul'', 7), (''aug'', 8), (''sep'', 9), (''oct'', 10), (''nov'', 11), (''dec'', 12)]"

text \<open>
  \<^verbatim>\<open>pd.to_datetime(col.str[:3] + "-01", format='%b-%d', errors='coerce')\<close> on one cell:
  the first three characters must be a month abbreviation (matched without regard to
  case); the year, absent from the format, is 1900; anything else is NaT.
\<close>

definition parse_month :: "string option \<Rightarrow> timestamp option" where
  "parse_month s =
     (case s of
        None \<Rightarrow> None
      | Some txt \<Rightarrow>
          (case map_of month_names (map lower_char (take 3 txt)) of
             None \<Rightarrow> None
           | Some m \<Rightarrow> Some (Timestamp 1900 m 1)))"

text \<open>\<^verbatim>\<open>pd.to_datetime\<close> on a column that already holds timestamps returns them.\<close>

definition to_datetime :: "timestamp option \<Rightarrow> timestamp option" where
  "to_datetime t = t"

text \<open>\<^verbatim>\<open>Series.min()\<close> skips NaN and is NaN when nothing is left.\<close>

definition series_min :: "int option list \<Rightarrow> int option" where
  "series_min ys =
     (case [y. Some y \<leftarrow> ys] of [] \<Rightarrow> None | v # vs \<Rightarrow> Some (fold min vs v))"

text \<open>A comparison with NaN is false.\<close>

definition nan_less :: "'a::linorder option \<Rightarrow> 'a \<Rightarrow> bool" where
  "nan_less a b = (case a of None \<Rightarrow> False | Some v \<Rightarrow> v < b)"

definition np_where :: "bool \<Rightarrow> 'a \<Rightarrow> 'a \<Rightarrow> 'a" where
  "np_where c a b = (if c then a else b)"

definition load_sales_data :: "raw_row list \<Rightarrow> sales_row list" where
  "load_sales_data sales =
     (let parsed = map (\<lambda>r. parse_month (raw_MONTH r)) sales;
          years = map dt_year parsed;
          correct = nan_less (series_min years) 1900
      in map (\<lambda>r.
           let m = parse_month (raw_MONTH r)
           in \<lparr> PRODUCT_CODE = raw_PRODUCT_CODE r,
                PRODUCT_DESCRIPTION = raw_PRODUCT_DESCRIPTION r,
                MONTH = m,
                YEAR = (if correct then dt_year (to_datetime m) else dt_year m),
                QUANTITY = np_where (nan_less (raw_QUANTITY r) 0) (Some 0) (raw_QUANTITY r) \<rparr>)
         sales)"


subsection \<open>Season filter (lines 8 to 13 and 45 to 50)\<close>

definition SEASON_MONTHS :: "(string \<times> string list) list" where
  "SEASON_MONTHS =
     [(''Winter'', [''Dec'', ''Jan'', ''Feb'']),
      (''Spring'', [''Mar'', ''Apr'', ''May'']),
      (''Summer'', [''Jun'', ''Jul'', ''Aug'']),
      (''Autumn'', [''Sep'', ''Oct'', ''Nov''])]"

definition isin :: "string option \<Rightarrow> string list \<Rightarrow> bool" where
  "isin v months = (case v of None \<Rightarrow> False | Some s \<Rightarrow> s \<in> set months)"

definition filter_by_season :: "sales_row list \<Rightarrow> string \<Rightarrow> py_error + sales_row list" where
  "filter_by_season df season =
     (if season = ''All'' then Inr df
      else case map_of SEASON_MONTHS season of
             None \<Rightarrow> Inl KeyError
           | Some months \<Rightarrow> Inr (filter (\<lambda>r. isin (strftime_b (MONTH r)) months) df))"

subsection \<open>Aggregation and forecast (lines 54 to 75)\<close>

text \<open>A missing cell counts as zero in a pandas sum.\<close>

definition nan0 :: "rat option \<Rightarrow> rat" where
  "nan0 q = (case q of None \<Rightarrow> 0 | Some v \<Rightarrow> v)"

text \<open>
  The value of one bin. A bin without rows keeps the zero it starts from; otherwise its
  value is the sum pandas takes over the cells of the bin, in row order and in the
  arithmetic of the column. That sum is the parameter \<open>colsum\<close>: on an int64 column it
  wraps around, on a float64 column it skips NaN and rounds.
\<close>

definition bin_sum :: "(rat option list \<Rightarrow> rat) \<Rightarrow> rat option list \<Rightarrow> rat" where
  "bin_sum colsum cells = (if cells = [] then 0 else colsum cells)"

text \<open>
  \<^verbatim>\<open>product_df.set_index("MONTH").resample("M").sum()\<close>, of which the QUANTITY
  column is kept. The bins are the calendar months from the earliest to the latest
  timestamp of the index, each labelled with its month end. Rows whose index is NaT
  belong to no bin. An index that holds nothing but NaT has no earliest timestamp:
  pandas cannot build the range of bins and raises ValueError. A frame without rows
  gives a frame without rows.
\<close>

definition resample_M_sum ::
  "(rat option list \<Rightarrow> rat) \<Rightarrow> sales_row list \<Rightarrow> py_error + (timestamp \<times> rat) list" where
  "resample_M_sum colsum product_df =
     (if product_df = [] then Inr []
      else case [month_index t. Some t \<leftarrow> map MONTH product_df] of
             [] \<Rightarrow> Inl ValueError
           | k # ks \<Rightarrow>
               Inr (map (\<lambda>b. (month_end_of_index b,
                                bin_sum colsum
                                  [QUANTITY r. r \<leftarrow> product_df,
                                   map_option month_index (MONTH r) = Some b]))
                        [fold min ks k .. fold max ks k]))"

text \<open>The keyword arguments of \<^verbatim>\<open>ExponentialSmoothing\<close>.\<close>

record es_config =
  trend :: "string option"
  seasonal :: "string option"
  seasonal_periods :: "nat option"

text \<open>Python's \<^verbatim>\<open>str\<close> of an integer, for the f-string of line 62.\<close>

fun str_nat :: "nat \<Rightarrow> string" where
  "str_nat n =
     (if n < 10 then [''0123456789'' ! n]
      else str_nat (n div 10) @ [''0123456789'' ! (n mod 10)])"

declare str_nat.simps [simp del]

definition str_int :: "int \<Rightarrow> string" where
  "str_int i = (if i < 0 then CHR ''-'' # str_nat (nat (- i)) else str_nat (nat i))"

text \<open>
  \<^verbatim>\<open>forecast_sales\<close>. The calls into the libraries are parameters: \<open>colsum\<close> is the sum
  of a bin (above), \<open>fit\<close> is \<^verbatim>\<open>ExponentialSmoothing(series, **config).fit()\<close> and
  \<open>forecast\<close> is \<^verbatim>\<open>model.forecast(steps)\<close>; the last two may raise. The fitted model
  and the forecast values are opaque (\<open>'m\<close>, \<open>'f\<close>). The result \<open>Inr None\<close> is the triple
  \<^verbatim>\<open>(None, None, None)\<close>.
\<close>

definition forecast_sales ::
  "(rat option list \<Rightarrow> rat) \<Rightarrow>
   (es_config \<Rightarrow> (timestamp \<times> rat) list \<Rightarrow> py_error + 'm) \<Rightarrow> ('m \<Rightarrow> nat \<Rightarrow> py_error + 'f list) \<Rightarrow>
   sales_row list \<Rightarrow> int \<Rightarrow> nat \<Rightarrow>
   py_error + ((timestamp \<times> rat) list \<times> 'f list \<times> string option) option" where
  "forecast_sales colsum fit forecast df product_code forecast_periods =
     (let product_df = filter (\<lambda>r. PRODUCT_CODE r = product_code) df
      in if product_df = [] then Inr None
         else
           let product_description =
                 (case map PRODUCT_DESCRIPTION product_df of
                    d # _ \<Rightarrow> d
                  | [] \<Rightarrow> Some (''Product '' @ str_int product_code))
           in case resample_M_sum colsum product_df of
                Inl e \<Rightarrow> Inl e
              | Inr series \<Rightarrow>
                  (case (if length series < 24
                         then fit \<lparr>trend = Some ''add'', seasonal = None,
                                   seasonal_periods = None\<rparr> series
                         else fit \<lparr>trend = Some ''add'', seasonal = Some ''add'',
                                   seasonal_periods = Some 12\<rparr> series) of
                     Inl e \<Rightarrow> Inl e
                   | Inr model \<Rightarrow>
                       (case forecast model forecast_periods of
                          Inl e \<Rightarrow> Inl e
                        | Inr fc \<Rightarrow> Inr (Some (series, fc, product_description)))))"

text \<open>
  What statsmodels does with a series before it estimates anything: for a model with
  trend and without seasonal component the initial trend is the difference of the first
  two observations, \<^verbatim>\<open>endog[1] - endog[0]\<close>, and a series of fewer than two
  observations raises IndexError there. The estimation that follows is the parameter
  \<open>optimise\<close>.
\<close>

definition es_fit ::
  "(es_config \<Rightarrow> (timestamp \<times> rat) list \<Rightarrow> py_error + 'm) \<Rightarrow>
   es_config \<Rightarrow> (timestamp \<times> rat) list \<Rightarrow> py_error + 'm" where
  "es_fit optimise config series =
     (if trend config \<noteq> None \<and> seasonal config = None \<and> length series < 2
      then Inl IndexError
      else optimise config series)"

text \<open>
  The forecast axis of \<^verbatim>\<open>plot_forecasts\<close> (lines 98 to 102); \<^verbatim>\<open>index[-1]\<close> of an
  empty index raises IndexError.
\<close>

definition forecast_index :: "(timestamp \<times> rat) list \<Rightarrow> 'f list \<Rightarrow> py_error + timestamp list" where
  "forecast_index historical_data forecast =
     (case historical_data of
        [] \<Rightarrow> Inl IndexError
      | _ # _ \<Rightarrow>
          Inr (date_range_M (date_offset_months (fst (last historical_data)) 1)
                 (length forecast)))"

text \<open>
  The loop of lines 146 to 155: one call of \<^verbatim>\<open>forecast_sales\<close> per selected product, with
  the default horizon; a product without data is left out, an exception ends the loop.
\<close>

fun generate_forecasts ::
  "(rat option list \<Rightarrow> rat) \<Rightarrow>
   (es_config \<Rightarrow> (timestamp \<times> rat) list \<Rightarrow> py_error + 'm) \<Rightarrow> ('m \<Rightarrow> nat \<Rightarrow> py_error + 'f list) \<Rightarrow>
   sales_row list \<Rightarrow> int list \<Rightarrow>
   py_error + (int \<times> string option \<times> (timestamp \<times> rat) list \<times> 'f list) list" where
  "generate_forecasts colsum fit forecast df [] = Inr []"
| "generate_forecasts colsum fit forecast df (product_code # rest) =
     (case forecast_sales colsum fit forecast df product_code 12 of
        Inl e \<Rightarrow> Inl e
      | Inr None \<Rightarrow> generate_forecasts colsum fit forecast df rest
      | Inr (Some (historical_data, fc, product_description)) \<Rightarrow>
          (case generate_forecasts colsum fit forecast df rest of
             Inl e \<Rightarrow> Inl e
           | Inr forecasts \<Rightarrow>
               Inr ((product_code, product_description, historical_data, fc) # forecasts)))"

subsection \<open>Notions used in the statements\<close>

text \<open>The rows of a product, and the series \<^verbatim>\<open>forecast_sales\<close> builds from them.\<close>

definition product_rows :: "sales_row list \<Rightarrow> int \<Rightarrow> sales_row list" where
  "product_rows df product_code = filter (\<lambda>r. PRODUCT_CODE r = product_code) df"

definition product_series ::
  "(rat option list \<Rightarrow> rat) \<Rightarrow> sales_row list \<Rightarrow> int \<Rightarrow> py_error + (timestamp \<times> rat) list" where
  "product_series colsum df product_code = resample_M_sum colsum (product_rows df product_code)"

text \<open>The grid positions of the months observed for a product.\<close>

definition observed_months :: "sales_row list \<Rightarrow> int \<Rightarrow> int list" where
  "observed_months df product_code =
     [month_index t. Some t \<leftarrow> map MONTH (product_rows df product_code)]"

text \<open>The seasons a caller can select (line 134).\<close>

definition seasons :: "string list" where
  "seasons = [''All'', ''Winter'', ''Spring'', ''Summer'', ''Autumn'']"

text \<open>
  Fitting a configuration on a series and forecasting \<open>steps\<close> values from the fitted
  model: what lines 68 to 75 do once the configuration is chosen.
\<close>

definition run_model ::
  "(es_config \<Rightarrow> (timestamp \<times> rat) list \<Rightarrow> py_error + 'm) \<Rightarrow> ('m \<Rightarrow> nat \<Rightarrow> py_error + 'f list) \<Rightarrow>
   es_config \<Rightarrow> (timestamp \<times> rat) list \<Rightarrow> nat \<Rightarrow> string option \<Rightarrow>
   py_error + ((timestamp \<times> rat) list \<times> 'f list \<times> string option) option" where
  "run_model fit forecast config series steps descr =
     (case fit config series of
        Inl e \<Rightarrow> Inl e
      | Inr model \<Rightarrow>
          (case forecast model steps of
             Inl e \<Rightarrow> Inl e
           | Inr fc \<Rightarrow> Inr (Some (series, fc, descr))))"

text \<open>
  The range in which both arithmetics of a quantity column are exact: the cells are
  integers and their magnitudes add up to less than \<open>2 ^ 53\<close>. An int64 sum does not
  wrap there, and every partial sum of a float64 sum is an integer that a float holds
  exactly. A sum is exact on small cells when it returns the plain sum in that range.
\<close>

definition small_cells :: "rat option list \<Rightarrow> bool" where
  "small_cells cells =
     ((\<forall>c\<in>set cells. nan0 c \<in> \<int>) \<and> sum_list (map (\<lambda>c. \<bar>nan0 c\<bar>) cells) < 2 ^ 53)"

definition exact_on_small :: "(rat option list \<Rightarrow> rat) \<Rightarrow> bool" where
  "exact_on_small colsum =
     (\<forall>cells. small_cells cells \<longrightarrow> colsum cells = sum_list (map nan0 cells))"

text \<open>
  Two sums. The sum of an int64 column (no cell missing, every cell an integer) is the
  plain sum wrapped into 64 bits, two's complement. The plain sum is what either
  arithmetic returns on small cells; it serves for runs in that range.
\<close>

definition wrap64 :: "int \<Rightarrow> int" where
  "wrap64 x = (x + 2 ^ 63) mod 2 ^ 64 - 2 ^ 63"

definition int64_sum :: "rat option list \<Rightarrow> rat" where
  "int64_sum cells = of_int (wrap64 (sum_list (map (\<lambda>c. \<lfloor>nan0 c\<rfloor>) cells)))"

definition plain_sum :: "rat option list \<Rightarrow> rat" where
  "plain_sum cells = sum_list (map nan0 cells)"

text \<open>
  An estimation on which the pipeline can be run: it accepts the series and returns the
  configuration it was given, and the forecast is \<open>steps\<close> copies of that configuration,
  so that a result shows which model was fitted.
\<close>

definition echo_optimise :: "es_config \<Rightarrow> (timestamp \<times> rat) list \<Rightarrow> py_error + es_config" where
  "echo_optimise config series = Inr config"

definition echo_forecast :: "es_config \<Rightarrow> nat \<Rightarrow> py_error + es_config list" where
  "echo_forecast model steps = Inr (replicate steps model)"

text \<open>A row of a normalized table, for concrete runs.\<close>

definition mk_row :: "int \<Rightarrow> string \<Rightarrow> timestamp option \<Rightarrow> rat option \<Rightarrow> sales_row" where
  "mk_row code descr m q =
     \<lparr>PRODUCT_CODE = code, PRODUCT_DESCRIPTION = Some descr, MONTH = m,
      YEAR = dt_year m, QUANTITY = q\<rparr>"

definition mk_raw :: "int \<Rightarrow> string \<Rightarrow> string \<Rightarrow> rat option \<Rightarrow> raw_row" where
  "mk_raw code descr m q =
     \<lparr>raw_PRODUCT_CODE = code, raw_PRODUCT_DESCRIPTION = Some descr, raw_MONTH = Some m,
      raw_QUANTITY = q\<rparr>"

text \<open>
  The series that resampling yields when some row of the product has a valid month: one
  bin per month between the first and the last observed month.
\<close>

definition bins :: "(rat option list \<Rightarrow> rat) \<Rightarrow> sales_row list \<Rightarrow> int \<Rightarrow> (timestamp \<times> rat) list" where
  "bins colsum df pc =
     map (\<lambda>b. (month_end_of_index b,
                bin_sum colsum
                  (map QUANTITY
                     (filter (\<lambda>r. map_option month_index (MONTH r) = Some b)
                        (product_rows df pc)))))
         [Min (set (observed_months df pc)) .. Max (set (observed_months df pc))]"

text \<open>The two configurations of lines 68 and 70 to 72.\<close>

definition trend_only :: es_config where
  "trend_only = \<lparr>trend = Some ''add'', seasonal = None, seasonal_periods = None\<rparr>"

definition trend_seasonal :: es_config where
  "trend_seasonal = \<lparr>trend = Some ''add'', seasonal = Some ''add'', seasonal_periods = Some 12\<rparr>"

text \<open>
  Example tables: one record; two records 24 months apart; two products, one of them
  with a gap of two months; a product whose first description is empty.
\<close>

definition one_record :: "sales_row list" where
  "one_record = [mk_row 1 ''widget'' (Some (Timestamp 1900 1 1)) (Some 4)]"

definition two_years :: "sales_row list" where
  "two_years =
     [mk_row 1 ''widget'' (Some (Timestamp 2000 1 1)) (Some 4),
      mk_row 1 ''widget'' (Some (Timestamp 2001 12 1)) (Some 4)]"

definition with_gap :: "sales_row list" where
  "with_gap =
     [mk_row 1 ''widget'' (Some (Timestamp 1900 4 1)) (Some 1),
      mk_row 2 ''gadget'' (Some (Timestamp 1900 12 1)) (Some 9),
      mk_row 1 ''widget'' (Some (Timestamp 1900 1 1)) (Some 2),
      mk_row 1 ''widget'' (Some (Timestamp 1900 1 1)) None,
      mk_row 1 ''widget'' (Some (Timestamp 1900 4 1)) (Some 3)]"

definition empty_first :: "sales_row list" where
  "empty_first =
     [mk_row 7 '''' (Some (Timestamp 1900 1 1)) (Some 4),
      mk_row 7 ''widget'' (Some (Timestamp 1900 2 1)) (Some 4)]"

section \<open>Auxiliary facts\<close>

lemma concat_map_if: "concat (map (\<lambda>r. if P r then [f r] else []) xs) = map f (filter P xs)"
  by (induction xs) simp_all

lemma observed_set:
  "set (concat (map (\<lambda>x. case x of None \<Rightarrow> [] | Some t \<Rightarrow> [month_index t]) (map MONTH rows)))
     = {k. \<exists>r\<in>set rows. map_option month_index (MONTH r) = Some k}"
  by (induction rows) (auto split: option.splits intro: sym)

lemma month_index_month_end [simp]: "month_index (month_end_of_index k) = k"
proof -
  have "0 \<le> k mod 12" by simp
  then show ?thesis
    unfolding month_index_def month_end_of_index_def by (simp add: algebra_simps)
qed

lemma month_index_date_offset [simp]: "month_index (date_offset_months t n) = month_index t + n"
proof -
  have "0 \<le> (month_index t + n) mod 12" by simp
  then show ?thesis
    unfolding date_offset_months_def Let_def
    by (simp add: month_index_def[of "Timestamp _ _ _"] algebra_simps)
qed

lemma resample_M_sum_valid:
  assumes "rows \<noteq> []" and "[month_index t. Some t \<leftarrow> map MONTH rows] = obs" and "obs \<noteq> []"
  shows "resample_M_sum colsum rows =
     Inr (map (\<lambda>b. (month_end_of_index b,
                     bin_sum colsum
                       (map QUANTITY
                          (filter (\<lambda>r. map_option month_index (MONTH r) = Some b) rows))))
              [Min (set obs) .. Max (set obs)])"
proof -
  from assms(3) obtain k ks where obs: "obs = k # ks" by (cases obs) auto
  have lo: "fold min ks k = Min (set obs)" and hi: "fold max ks k = Max (set obs)"
    unfolding obs using Min.set_eq_fold[of k ks] Max.set_eq_fold[of k ks] by simp_all
  show ?thesis
    using assms(1) assms(2) unfolding resample_M_sum_def obs
    by (simp add: concat_map_if lo[unfolded obs] hi[unfolded obs])
qed






lemma observed_months_alt:
  "observed_months df pc = [month_index t. Some t \<leftarrow> map MONTH (product_rows df pc)]"
  by (simp add: observed_months_def)

lemma observed_months_set:
  "set (observed_months df pc) =
     {k. \<exists>r\<in>set (product_rows df pc). map_option month_index (MONTH r) = Some k}"
  unfolding observed_months_def by (rule observed_set)

lemma observed_months_Nil:
  "observed_months df pc = [] \<longleftrightarrow> (\<forall>r\<in>set (product_rows df pc). MONTH r = None)"
proof -
  have "observed_months df pc = [] \<longleftrightarrow> set (observed_months df pc) = {}" by simp
  also have "\<dots> \<longleftrightarrow> (\<forall>r\<in>set (product_rows df pc). MONTH r = None)"
  proof
    assume empty: "set (observed_months df pc) = {}"
    show "\<forall>r\<in>set (product_rows df pc). MONTH r = None"
    proof
      fix r assume r: "r \<in> set (product_rows df pc)"
      show "MONTH r = None"
      proof (cases "MONTH r")
        case (Some t)
        with r have "month_index t \<in> set (observed_months df pc)"
          unfolding observed_months_set by auto
        with empty show ?thesis by simp
      qed simp
    qed
  next
    assume "\<forall>r\<in>set (product_rows df pc). MONTH r = None"
    then show "set (observed_months df pc) = {}"
      unfolding observed_months_set by auto
  qed
  finally show ?thesis .
qed

lemma product_series_valid:
  assumes "observed_months df pc \<noteq> []"
  shows "product_series colsum df pc = Inr (bins colsum df pc)"
proof -
  from assms have "product_rows df pc \<noteq> []"
    by (auto simp: observed_months_def)
  from resample_M_sum_valid[OF this observed_months_alt[symmetric] assms]
  show ?thesis by (simp add: product_series_def bins_def)
qed

lemma product_series_invalid:
  assumes "product_rows df pc \<noteq> []" and "observed_months df pc = []"
  shows "product_series colsum df pc = Inl ValueError"
proof -
  have "resample_M_sum colsum rows = Inl ValueError"
    if "rows \<noteq> []" and "[month_index t. Some t \<leftarrow> map MONTH rows] = []" for rows
    unfolding resample_M_sum_def that(2) using that(1) by simp
  from this[OF assms(1)] assms(2) show ?thesis
    by (simp add: product_series_def observed_months_def)
qed

lemma product_series_Inr:
  assumes "product_rows df pc \<noteq> []" and "product_series colsum df pc = Inr s"
  shows "observed_months df pc \<noteq> [] \<and> s = bins colsum df pc"
proof (cases "observed_months df pc = []")
  case True
  with product_series_invalid[OF assms(1)] assms(2) show ?thesis by simp
next
  case False
  with product_series_valid[OF False] assms(2) show ?thesis by simp
qed

lemma product_series_exists:
  assumes "\<exists>r\<in>set (product_rows df pc). MONTH r \<noteq> None"
  shows "product_series colsum df pc = Inr (bins colsum df pc)"
proof -
  from assms have "observed_months df pc \<noteq> []" by (simp add: observed_months_Nil)
  then show ?thesis by (rule product_series_valid)
qed

lemma forecast_sales_unfold:
  "forecast_sales colsum fit forecast df pc n =
     (if product_rows df pc = [] then Inr None
      else case product_series colsum df pc of
             Inl e \<Rightarrow> Inl e
           | Inr series \<Rightarrow>
               run_model fit forecast
                 (if length series < 24
                  then \<lparr>trend = Some ''add'', seasonal = None, seasonal_periods = None\<rparr>
                  else \<lparr>trend = Some ''add'', seasonal = Some ''add'', seasonal_periods = Some 12\<rparr>)
                 series n (PRODUCT_DESCRIPTION (hd (product_rows df pc))))"
  by (cases "filter (\<lambda>r. PRODUCT_CODE r = pc) df")
     (simp_all add: forecast_sales_def Let_def product_rows_def product_series_def run_model_def
        split: sum.splits)

lemma forecast_sales_Some:
  assumes "forecast_sales colsum fit forecast df pc n = Inr (Some (hist, fc, d))"
  shows "product_rows df pc \<noteq> [] \<and> product_series colsum df pc = Inr hist
         \<and> d = PRODUCT_DESCRIPTION (hd (product_rows df pc))
         \<and> (\<exists>config model. fit config hist = Inr model \<and> forecast model n = Inr fc)"
  using assms unfolding forecast_sales_unfold run_model_def
  by (auto split: if_splits sum.splits)

lemma bins_index: "map (\<lambda>e. month_index (fst e)) (bins colsum df pc) =
    [Min (set (observed_months df pc)) .. Max (set (observed_months df pc))]"
  by (simp add: bins_def comp_def)

lemma bins_nonempty: "observed_months df pc \<noteq> [] \<Longrightarrow> bins colsum df pc \<noteq> []"
proof -
  assume "observed_months df pc \<noteq> []"
  then have "Min (set (observed_months df pc)) \<le> Max (set (observed_months df pc))"
    by simp
  then have "[Min (set (observed_months df pc)) .. Max (set (observed_months df pc))] \<noteq> []"
    by (simp add: upto_rec1)
  then show ?thesis using bins_index[of colsum df pc] by (metis map_is_Nil_conv)
qed

lemma bins_consecutive:
  assumes "Suc i < length (bins colsum df pc)"
  shows "month_index (fst (bins colsum df pc ! Suc i)) =
         month_index (fst (bins colsum df pc ! i)) + 1"
proof -
  let ?lo = "Min (set (observed_months df pc))" and ?hi = "Max (set (observed_months df pc))"
  let ?s = "bins colsum df pc"
  have len: "length [?lo .. ?hi] = length ?s"
    using arg_cong[OF bins_index[of colsum df pc], of length] by simp
  have "month_index (fst (?s ! j)) = [?lo .. ?hi] ! j" if "j < length ?s" for j
    using that arg_cong[OF bins_index[of colsum df pc], of "\<lambda>l. l ! j"] by simp
  moreover have "[?lo .. ?hi] ! j = ?lo + int j" if "j < length ?s" for j
    using that len by (simp add: nth_upto)
  ultimately show ?thesis using assms by simp
qed

lemma bins_labels:
  "\<forall>e\<in>set (bins colsum df pc). fst e = month_end_of_index (month_index (fst e))"
  by (auto simp: bins_def)

lemma bins_zero_fill:
  "\<forall>e\<in>set (bins colsum df pc).
     month_index (fst e) \<notin> set (observed_months df pc) \<longrightarrow> snd e = 0"
proof (intro ballI impI)
  fix e assume e: "e \<in> set (bins colsum df pc)"
    and out: "month_index (fst e) \<notin> set (observed_months df pc)"
  from e obtain b where eb: "e = (month_end_of_index b,
      bin_sum colsum (map QUANTITY
         (filter (\<lambda>r. map_option month_index (MONTH r) = Some b) (product_rows df pc))))"
    by (auto simp: bins_def)
  with out have "b \<notin> set (observed_months df pc)" by simp
  then have "filter (\<lambda>r. map_option month_index (MONTH r) = Some b) (product_rows df pc) = []"
    unfolding observed_months_set by (auto simp: filter_empty_conv)
  with eb show "snd e = 0" by (simp add: bin_sum_def)
qed

lemma sum_if_distinct:
  "distinct bs \<Longrightarrow>
     sum_list (map (\<lambda>b. if g = Some b then (c::rat) else 0) bs) =
       (if \<exists>b\<in>set bs. g = Some b then c else 0)"
  by (induction bs) auto

lemma sum_bins:
  fixes f :: "'r \<Rightarrow> rat"
  assumes "distinct bs"
  shows "sum_list (map (\<lambda>b. sum_list (map f (filter (\<lambda>r. g r = Some b) rows))) bs) =
         sum_list (map f (filter (\<lambda>r. \<exists>b\<in>set bs. g r = Some b) rows))"
proof (induction rows)
  case Nil
  show ?case by simp
next
  case (Cons x xs)
  have "sum_list (map (\<lambda>b. sum_list (map f (filter (\<lambda>r. g r = Some b) (x # xs)))) bs) =
        sum_list (map (\<lambda>b. (if g x = Some b then f x else 0)
                           + sum_list (map f (filter (\<lambda>r. g r = Some b) xs))) bs)"
    by (rule arg_cong[where f = sum_list], rule map_cong) simp_all
  also have "\<dots> = sum_list (map (\<lambda>b. if g x = Some b then f x else 0) bs)
                   + sum_list (map (\<lambda>b. sum_list (map f (filter (\<lambda>r. g r = Some b) xs))) bs)"
    by (simp add: sum_list_addf)
  also have "\<dots> = (if \<exists>b\<in>set bs. g x = Some b then f x else 0)
                   + sum_list (map f (filter (\<lambda>r. \<exists>b\<in>set bs. g r = Some b) xs))"
    by (simp only: sum_if_distinct[OF assms] Cons.IH)
  also have "\<dots> = sum_list (map f (filter (\<lambda>r. \<exists>b\<in>set bs. g r = Some b) (x # xs)))"
    by simp
  finally show ?case .
qed

lemma sum_filter_mono:
  fixes f :: "'r \<Rightarrow> rat"
  assumes "\<forall>x\<in>set xs. 0 \<le> f x" and "\<forall>x\<in>set xs. P x \<longrightarrow> Q x"
  shows "sum_list (map f (filter P xs)) \<le> sum_list (map f (filter Q xs))"
  using assms by (induction xs) (auto intro: add_mono add_increasing)

lemma bin_sum_exact:
  assumes "exact_on_small colsum" and "small_cells cells"
  shows "bin_sum colsum cells = sum_list (map nan0 cells)"
  using assms by (simp add: bin_sum_def exact_on_small_def)

lemma bins_sum:
  assumes ne: "observed_months df pc \<noteq> []"
    and exact: "exact_on_small colsum"
    and small: "small_cells (map QUANTITY (filter (\<lambda>r. MONTH r \<noteq> None) (product_rows df pc)))"
  shows "sum_list (map snd (bins colsum df pc)) =
         sum_list (map (\<lambda>r. nan0 (QUANTITY r)) (filter (\<lambda>r. MONTH r \<noteq> None) (product_rows df pc)))"
proof -
  let ?obs = "observed_months df pc"
  let ?rows = "product_rows df pc"
  let ?g = "\<lambda>r. map_option month_index (MONTH r)"
  have bin: "bin_sum colsum (map QUANTITY (filter (\<lambda>r. ?g r = Some b) ?rows)) =
             sum_list (map (\<lambda>r. nan0 (QUANTITY r)) (filter (\<lambda>r. ?g r = Some b) ?rows))" for b
  proof -
    have int: "\<forall>c\<in>set (map QUANTITY (filter (\<lambda>r. ?g r = Some b) ?rows)). nan0 c \<in> \<int>"
      using small by (auto simp: small_cells_def)
    have "sum_list (map (\<lambda>r. \<bar>nan0 (QUANTITY r)\<bar>) (filter (\<lambda>r. ?g r = Some b) ?rows))
          \<le> sum_list (map (\<lambda>r. \<bar>nan0 (QUANTITY r)\<bar>) (filter (\<lambda>r. MONTH r \<noteq> None) ?rows))"
      by (rule sum_filter_mono) auto
    also have "\<dots> < 2 ^ 53" using small by (simp add: small_cells_def comp_def)
    finally have "small_cells (map QUANTITY (filter (\<lambda>r. ?g r = Some b) ?rows))"
      using int by (simp add: small_cells_def comp_def)
    from bin_sum_exact[OF exact this] show ?thesis by (simp add: comp_def)
  qed
  have "sum_list (map snd (bins colsum df pc)) =
        sum_list (map (\<lambda>b. sum_list (map (\<lambda>r. nan0 (QUANTITY r))
            (filter (\<lambda>r. ?g r = Some b) ?rows)))
          [Min (set ?obs) .. Max (set ?obs)])"
    unfolding bins_def bin by (simp add: comp_def)
  also have "\<dots> = sum_list (map (\<lambda>r. nan0 (QUANTITY r))
       (filter (\<lambda>r. \<exists>b\<in>set [Min (set ?obs) .. Max (set ?obs)]. ?g r = Some b) ?rows))"
    by (rule sum_bins) simp
  also have "filter (\<lambda>r. \<exists>b\<in>set [Min (set ?obs) .. Max (set ?obs)]. ?g r = Some b) ?rows
           = filter (\<lambda>r. MONTH r \<noteq> None) ?rows"
  proof (rule filter_cong[OF refl])
    fix r assume r: "r \<in> set ?rows"
    show "(\<exists>b\<in>set [Min (set ?obs) .. Max (set ?obs)]. ?g r = Some b) = (MONTH r \<noteq> None)"
    proof (cases "MONTH r")
      case None
      then show ?thesis by simp
    next
      case (Some t)
      with r have "month_index t \<in> set ?obs" unfolding observed_months_set by auto
      then have "Min (set ?obs) \<le> month_index t" and "month_index t \<le> Max (set ?obs)"
        by simp_all
      with Some show ?thesis by simp
    qed
  qed
  finally show ?thesis .
qed

lemma plain_sum_exact: "exact_on_small plain_sum"
  by (simp add: exact_on_small_def plain_sum_def)

lemma sum_floor_Ints:
  "\<forall>c\<in>set cells. nan0 c \<in> \<int> \<Longrightarrow>
     of_int (sum_list (map (\<lambda>c. \<lfloor>nan0 c\<rfloor>) cells)) = sum_list (map nan0 cells)"
proof (induction cells)
  case Nil
  show ?case by simp
next
  case (Cons c cells)
  from Cons.prems have "nan0 c \<in> \<int>" by simp
  then have "of_int \<lfloor>nan0 c\<rfloor> = nan0 c" by (auto elim!: Ints_cases)
  with Cons show ?case by simp
qed

lemma abs_sum_le: "\<bar>sum_list (map f xs)\<bar> \<le> sum_list (map (\<lambda>x. \<bar>f x :: rat\<bar>) xs)"
  by (induction xs) (auto intro: order_trans[OF abs_triangle_ineq])

lemma int64_sum_exact: "exact_on_small int64_sum"
  unfolding exact_on_small_def
proof (intro allI impI)
  fix cells assume small: "small_cells cells"
  let ?s = "sum_list (map (\<lambda>c. \<lfloor>nan0 c\<rfloor>) cells)"
  from small have eq: "of_int ?s = sum_list (map nan0 cells)"
    by (simp add: small_cells_def sum_floor_Ints)
  have "\<bar>sum_list (map nan0 cells)\<bar> < 2 ^ 53"
    using abs_sum_le[of nan0 cells] small by (simp add: small_cells_def)
  with eq have "\<bar>(of_int ?s :: rat)\<bar> < 2 ^ 53" by simp
  then have "\<bar>?s\<bar> < 2 ^ 53"
    by (metis of_int_abs of_int_less_iff of_int_numeral of_int_power)
  then have "wrap64 ?s = ?s" by (simp add: wrap64_def abs_less_iff)
  with eq show "int64_sum cells = sum_list (map nan0 cells)" by (simp add: int64_sum_def)
qed

section \<open>Model selection and forecast\<close>

text \<open>
  Claim C1. The model fitted depends on the length of the resampled series alone: for a
  product with rows whose series has fewer than 24 entries, \<^verbatim>\<open>forecast_sales\<close> is the
  run of the additive-trend configuration without seasonal component; with 24 entries or
  more it is the run of the additive-trend, additive-seasonal configuration of period 12.
\<close>

theorem model_selection:
  assumes "product_rows df pc \<noteq> []" and "product_series colsum df pc = Inr series"
  shows "(length series < 24 \<longrightarrow>
            forecast_sales colsum fit forecast df pc n =
              run_model fit forecast
                \<lparr>trend = Some ''add'', seasonal = None, seasonal_periods = None\<rparr>
                series n (PRODUCT_DESCRIPTION (hd (product_rows df pc))))
       \<and> (24 \<le> length series \<longrightarrow>
            forecast_sales colsum fit forecast df pc n =
              run_model fit forecast
                \<lparr>trend = Some ''add'', seasonal = Some ''add'', seasonal_periods = Some 12\<rparr>
                series n (PRODUCT_DESCRIPTION (hd (product_rows df pc))))"
  using assms by (simp add: forecast_sales_unfold)

text \<open>
  A product observed from January to April gives four bins and the trend-only model; two
  records 24 months apart give 24 bins and the seasonal model. The echo estimation
  returns the fitted configuration as forecast value.
\<close>

theorem model_selection_witness:
  "forecast_sales plain_sum (es_fit echo_optimise) echo_forecast with_gap 1 2 =
     Inr (Some ([(Timestamp 1900 1 31, 2), (Timestamp 1900 2 28, 0), (Timestamp 1900 3 31, 0),
                 (Timestamp 1900 4 30, 4)],
                [trend_only, trend_only], Some ''widget''))
   \<and> forecast_sales plain_sum (es_fit echo_optimise) echo_forecast two_years 1 1 =
     Inr (Some (map (\<lambda>k. (month_end_of_index k, if k = 24000 \<or> k = 24023 then 4 else 0))
                  [24000..24023],
                [trend_seasonal], Some ''widget''))"
proof -
  have r1: "product_rows with_gap 1 \<noteq> []" by code_simp
  have s1: "product_series plain_sum with_gap 1 =
     Inr [(Timestamp 1900 1 31, 2), (Timestamp 1900 2 28, 0), (Timestamp 1900 3 31, 0),
          (Timestamp 1900 4 30, 4)]" by code_simp
  have d1: "PRODUCT_DESCRIPTION (hd (product_rows with_gap 1)) = Some ''widget''" by code_simp
  have r2: "product_rows two_years 1 \<noteq> []" by code_simp
  have s2: "product_series plain_sum two_years 1 =
     Inr (map (\<lambda>k. (month_end_of_index k, if k = 24000 \<or> k = 24023 then 4 else 0))
            [24000..24023])" by code_simp
  have d2: "PRODUCT_DESCRIPTION (hd (product_rows two_years 1)) = Some ''widget''" by code_simp
  have l2: "length (map (\<lambda>k. (month_end_of_index k, if k = 24000 \<or> k = 24023 then (4::rat) else 0))
            [24000..24023]) = 24" by code_simp
  show ?thesis
    using model_selection [OF r1 s1, of "es_fit echo_optimise" echo_forecast 2]
      model_selection [OF r2 s2, of "es_fit echo_optimise" echo_forecast 1]
    unfolding l2 d1 d2
    by (simp add: run_model_def es_fit_def echo_optimise_def echo_forecast_def trend_only_def
          trend_seasonal_def numeral_2_eq_2)
qed

text \<open>
  Claim C2. When \<^verbatim>\<open>forecast_sales\<close> succeeds with horizon \<open>n\<close>, and the library's forecast
  returns as many values as steps were asked for, the forecast has length \<open>n\<close>, the
  history is not empty, and the axis \<^verbatim>\<open>plot_forecasts\<close> builds has \<open>n\<close> month ends: the
  first is the month after the last historical month, each next one is one month later,
  and all of them lie after every historical month.
\<close>

theorem forecast_axis:
  assumes "forecast_sales colsum fit forecast df pc n = Inr (Some (hist, fc, d))"
    and "\<forall>model steps out. forecast model steps = Inr out \<longrightarrow> length out = steps"
  shows "length fc = n
     \<and> hist \<noteq> []
     \<and> (\<exists>axis. forecast_index hist fc = Inr axis
           \<and> axis = map (\<lambda>i. month_end_of_index (month_index (fst (last hist)) + 1 + int i)) [0..<n]
           \<and> map month_index axis = map (\<lambda>i. month_index (fst (last hist)) + 1 + int i) [0..<n]
           \<and> (\<forall>e\<in>set hist. \<forall>x\<in>set axis. month_index (fst e) < month_index x))"
proof -
  from forecast_sales_Some[OF assms(1)]
  obtain config model where rows: "product_rows df pc \<noteq> []"
    and ps: "product_series colsum df pc = Inr hist"
    and fc: "forecast model n = Inr fc" by blast
  from assms(2) fc have len: "length fc = n" by blast
  from product_series_Inr[OF rows ps] have ne: "observed_months df pc \<noteq> []"
    and hist: "hist = bins colsum df pc" by simp_all
  have hne: "hist \<noteq> []" unfolding hist by (rule bins_nonempty[OF ne])
  let ?lo = "Min (set (observed_months df pc))" and ?hi = "Max (set (observed_months df pc))"
  have idx: "map (\<lambda>e. month_index (fst e)) hist = [?lo .. ?hi]"
    unfolding hist by (rule bins_index)
  from ne have lohi: "?lo \<le> ?hi" by simp
  have "last (map (\<lambda>e. month_index (fst e)) hist) = ?hi"
    unfolding idx using lohi by (simp add: upto_rec2)
  with hne have last: "month_index (fst (last hist)) = ?hi" by (simp add: last_map)
  have below: "\<forall>e\<in>set hist. month_index (fst e) \<le> ?hi"
  proof
    fix e assume "e \<in> set hist"
    then have "month_index (fst e) \<in> set (map (\<lambda>e. month_index (fst e)) hist)" by simp
    then show "month_index (fst e) \<le> ?hi" unfolding idx by simp
  qed
  let ?axis = "map (\<lambda>i. month_end_of_index (month_index (fst (last hist)) + 1 + int i)) [0..<n]"
  have ax: "forecast_index hist fc = Inr ?axis"
    using hne len by (cases hist) (simp_all add: forecast_index_def date_range_M_def)
  have mi: "map month_index ?axis = map (\<lambda>i. month_index (fst (last hist)) + 1 + int i) [0..<n]"
    by (simp add: comp_def)
  have sep: "\<forall>e\<in>set hist. \<forall>x\<in>set ?axis. month_index (fst e) < month_index x"
    using below last by fastforce
  from len hne ax mi sep show ?thesis by blast
qed

text \<open>The default horizon of 12 on a history that runs from January to April 1900.\<close>

theorem forecast_axis_witness:
  "forecast_sales plain_sum (es_fit echo_optimise) echo_forecast with_gap 1 12 =
     Inr (Some ([(Timestamp 1900 1 31, 2), (Timestamp 1900 2 28, 0), (Timestamp 1900 3 31, 0),
                 (Timestamp 1900 4 30, 4)], replicate 12 trend_only, Some ''widget''))
   \<and> length (replicate 12 trend_only) = 12
   \<and> forecast_index [(Timestamp 1900 1 31, 2), (Timestamp 1900 2 28, 0), (Timestamp 1900 3 31, 0),
                     (Timestamp 1900 4 30, 4)] (replicate 12 trend_only) =
       Inr [Timestamp 1900 5 31, Timestamp 1900 6 30, Timestamp 1900 7 31, Timestamp 1900 8 31,
            Timestamp 1900 9 30, Timestamp 1900 10 31, Timestamp 1900 11 30,
            Timestamp 1900 12 31, Timestamp 1901 1 31, Timestamp 1901 2 28,
            Timestamp 1901 3 31, Timestamp 1901 4 30]"
proof -
  have run: "forecast_sales plain_sum (es_fit echo_optimise) echo_forecast with_gap 1 12 =
     Inr (Some ([(Timestamp 1900 1 31, 2), (Timestamp 1900 2 28, 0), (Timestamp 1900 3 31, 0),
                 (Timestamp 1900 4 30, 4)], replicate 12 trend_only, Some ''widget''))"
    by code_simp
  have lib: "\<forall>model steps out. echo_forecast model steps = Inr out \<longrightarrow> length out = steps"
    by (auto simp: echo_forecast_def)
  have axis: "map (\<lambda>i. month_end_of_index
                   (month_index (fst (last [(Timestamp 1900 1 31, 2::rat), (Timestamp 1900 2 28, 0),
                      (Timestamp 1900 3 31, 0), (Timestamp 1900 4 30, 4)])) + 1 + int i)) [0..<12] =
       [Timestamp 1900 5 31, Timestamp 1900 6 30, Timestamp 1900 7 31, Timestamp 1900 8 31,
        Timestamp 1900 9 30, Timestamp 1900 10 31, Timestamp 1900 11 30,
        Timestamp 1900 12 31, Timestamp 1901 1 31, Timestamp 1901 2 28,
        Timestamp 1901 3 31, Timestamp 1901 4 30]"
    by code_simp
  from forecast_axis [OF run lib] run axis show ?thesis by auto
qed

text \<open>
  Claim C3, as the code has it. A product without matching rows gives the triple of
  \<open>None\<close> and is left out by the loop over the selected products. A product with rows
  whose series has fewer than two entries gets no forecast: \<^verbatim>\<open>forecast_sales\<close> hands the
  series to the trend-only fit, which raises IndexError, and the call fails with that
  exception, for every estimation and every forecast routine.
\<close>

theorem short_series_fails:
  "(product_rows df pc = [] \<longrightarrow>
      forecast_sales colsum fit forecast df pc n = Inr None
      \<and> generate_forecasts colsum fit forecast df (pc # rest) =
          generate_forecasts colsum fit forecast df rest)
   \<and> (product_rows df pc \<noteq> [] \<and> product_series colsum df pc = Inr series
        \<and> length series < 2 \<longrightarrow>
      forecast_sales colsum (es_fit optimise) forecast df pc n = Inl IndexError)"
  by (simp add: forecast_sales_unfold run_model_def es_fit_def)

theorem short_series_fails_witness:
  "forecast_sales plain_sum (es_fit echo_optimise) echo_forecast one_record 7 12 = Inr None
   \<and> generate_forecasts plain_sum (es_fit echo_optimise) echo_forecast one_record [7] = Inr []
   \<and> forecast_sales plain_sum (es_fit echo_optimise) echo_forecast one_record 1 12 =
       Inl IndexError"
proof -
  have r7: "product_rows one_record 7 = []" by code_simp
  have r1: "product_rows one_record 1 \<noteq> []" by code_simp
  have s1: "product_series plain_sum one_record 1 = Inr [(Timestamp 1900 1 31, 4)]"
    by code_simp
  show ?thesis
    using short_series_fails [where df = one_record and pc = 7 and colsum = plain_sum
        and fit = "es_fit echo_optimise" and forecast = echo_forecast and n = 12
        and rest = "[]"]
      short_series_fails [where df = one_record and pc = 1 and colsum = plain_sum
        and optimise = echo_optimise and forecast = echo_forecast and n = 12
        and series = "[(Timestamp 1900 1 31, 4)]"]
    by (simp add: r7 r1 s1)
qed

text \<open>
  The claim as stated fails in the exception it names: a table loaded from one raw record
  gives a series of one month, and the call ends in the IndexError of the library; the
  code raises no error of its own for a short series.
\<close>

theorem single_record_counterexample:
  "forecast_sales plain_sum (es_fit echo_optimise) echo_forecast
     (load_sales_data [mk_raw 1001 ''widget'' ''Jan'' (Some 5)]) 1001 12 = Inl IndexError"
  by code_simp

section \<open>Normalization\<close>

text \<open>
  Claim C4, as the code has it. The loaded table has one row per raw row; a negative
  quantity becomes zero, a non-negative quantity is kept, and a missing quantity stays
  missing. Hence every quantity that is present in the loaded table is at least zero.
\<close>

theorem load_sales_data_quantity:
  "length (load_sales_data sales) = length sales
   \<and> (\<forall>i<length sales.
        QUANTITY (load_sales_data sales ! i) =
          (case raw_QUANTITY (sales ! i) of
             None \<Rightarrow> None
           | Some v \<Rightarrow> Some (if v < 0 then 0 else v)))
   \<and> (\<forall>r\<in>set (load_sales_data sales). \<forall>v. QUANTITY r = Some v \<longrightarrow> 0 \<le> v)"
  by (auto simp: load_sales_data_def Let_def np_where_def nan_less_def split: option.splits)

theorem load_sales_data_quantity_witness:
  "map QUANTITY (load_sales_data
      [mk_raw 1001 ''widget'' ''Jan'' (Some (- 5)), mk_raw 1001 ''widget'' ''Feb'' (Some 7),
       mk_raw 1001 ''widget'' ''Mar'' None]) = [Some 0, Some 7, None]"
  using load_sales_data_quantity [of
      "[mk_raw 1001 ''widget'' ''Jan'' (Some (- 5)), mk_raw 1001 ''widget'' ''Feb'' (Some 7),
       mk_raw 1001 ''widget'' ''Mar'' None]"]
  by (simp add: load_sales_data_def Let_def mk_raw_def np_where_def nan_less_def)

text \<open>The claim as stated fails on a row without quantity: the loaded quantity is missing, not zero.\<close>

theorem missing_quantity_counterexample:
  "map QUANTITY (load_sales_data [mk_raw 1001 ''widget'' ''Jan'' None]) = [None]
   \<and> map QUANTITY (load_sales_data [mk_raw 1001 ''widget'' ''Jan'' None]) \<noteq> [Some 0]"
  by (simp add: load_sales_data_def Let_def mk_raw_def np_where_def nan_less_def)




section \<open>Aggregation\<close>

text \<open>
  Claim C6, as the code has it. When \<^verbatim>\<open>forecast_sales\<close> returns a result, its description
  is the description of the first matching row, whatever that description is.
\<close>

theorem description_of_first_row:
  assumes "forecast_sales colsum fit forecast df pc n = Inr (Some (series, fc, d))"
  shows "product_rows df pc \<noteq> [] \<and> d = PRODUCT_DESCRIPTION (hd (product_rows df pc))"
  using forecast_sales_Some[OF assms] by simp

theorem description_of_first_row_witness:
  "forecast_sales plain_sum (es_fit echo_optimise) echo_forecast with_gap 1 1 =
     Inr (Some ([(Timestamp 1900 1 31, 2), (Timestamp 1900 2 28, 0), (Timestamp 1900 3 31, 0),
                 (Timestamp 1900 4 30, 4)], [trend_only], Some ''widget''))
   \<and> product_rows with_gap 1 \<noteq> []
   \<and> Some ''widget'' = PRODUCT_DESCRIPTION (hd (product_rows with_gap 1))"
proof -
  have run: "forecast_sales plain_sum (es_fit echo_optimise) echo_forecast with_gap 1 1 =
     Inr (Some ([(Timestamp 1900 1 31, 2), (Timestamp 1900 2 28, 0), (Timestamp 1900 3 31, 0),
                 (Timestamp 1900 4 30, 4)], [trend_only], Some ''widget''))"
    by code_simp
  from description_of_first_row [OF run] run show ?thesis by simp
qed

text \<open>
  The claim as stated fails on a product observed in two months whose first row has an
  empty description and whose second row has the description \<^verbatim>\<open>widget\<close>: the empty one
  is returned.
\<close>

theorem first_description_counterexample:
  "forecast_sales plain_sum (es_fit echo_optimise) echo_forecast empty_first 7 1 =
     Inr (Some ([(Timestamp 1900 1 31, 4), (Timestamp 1900 2 28, 4)], [trend_only], Some ''''))"
  by code_simp

text \<open>
  Claim C7. Take a product with matching rows. Whenever resampling yields a series, the
  series is not empty, its months run from the first to the last observed month of the
  product, each entry is one month after its predecessor and is labelled with its month
  end, and the quantity is zero in every month without observation. A series is yielded
  as soon as one matching row has a valid month, and it is the history that
  \<^verbatim>\<open>forecast_sales\<close> returns.
\<close>

theorem aggregator_no_gaps:
  assumes "product_rows df pc \<noteq> []"
  shows "((\<exists>r\<in>set (product_rows df pc). MONTH r \<noteq> None) \<longrightarrow>
            (\<exists>series. product_series colsum df pc = Inr series))
     \<and> (\<forall>series. product_series colsum df pc = Inr series \<longrightarrow>
           series \<noteq> []
           \<and> map (\<lambda>e. month_index (fst e)) series =
               [Min (set (observed_months df pc)) .. Max (set (observed_months df pc))]
           \<and> (\<forall>i. Suc i < length series \<longrightarrow>
                 month_index (fst (series ! Suc i)) = month_index (fst (series ! i)) + 1)
           \<and> (\<forall>e\<in>set series. fst e = month_end_of_index (month_index (fst e)))
           \<and> (\<forall>e\<in>set series.
                 month_index (fst e) \<notin> set (observed_months df pc) \<longrightarrow> snd e = 0))
     \<and> (\<forall>fit forecast n hist fc d.
           forecast_sales colsum fit forecast df pc n = Inr (Some (hist, fc :: 'f list, d)) \<longrightarrow>
           product_series colsum df pc = Inr hist)"
proof (intro conjI allI impI)
  assume "\<exists>r\<in>set (product_rows df pc). MONTH r \<noteq> None"
  then show "\<exists>series. product_series colsum df pc = Inr series"
    using product_series_exists by blast
next
  fix series assume ps: "product_series colsum df pc = Inr series"
  from product_series_Inr[OF assms ps]
  have ne: "observed_months df pc \<noteq> []" and eq: "series = bins colsum df pc" by simp_all
  show "series \<noteq> []" unfolding eq by (rule bins_nonempty[OF ne])
  show "map (\<lambda>e. month_index (fst e)) series =
      [Min (set (observed_months df pc)) .. Max (set (observed_months df pc))]"
    unfolding eq by (rule bins_index)
  show "\<forall>e\<in>set series. fst e = month_end_of_index (month_index (fst e))"
    unfolding eq by (rule bins_labels)
  show "\<forall>e\<in>set series. month_index (fst e) \<notin> set (observed_months df pc) \<longrightarrow> snd e = 0"
    unfolding eq by (rule bins_zero_fill)
  fix i assume "Suc i < length series"
  then show "month_index (fst (series ! Suc i)) = month_index (fst (series ! i)) + 1"
    unfolding eq by (rule bins_consecutive)
next
  fix fit :: "es_config \<Rightarrow> (timestamp \<times> rat) list \<Rightarrow> py_error + 'm"
    and forecast :: "'m \<Rightarrow> nat \<Rightarrow> py_error + 'f list" and n hist fc d
  assume "forecast_sales colsum fit forecast df pc n = Inr (Some (hist, fc, d))"
  from forecast_sales_Some[OF this] show "product_series colsum df pc = Inr hist" by simp
qed

text \<open>A product observed in January and in April: February and March are filled with zero.\<close>

theorem aggregator_no_gaps_witness:
  "product_rows with_gap 1 \<noteq> []
   \<and> product_series plain_sum with_gap 1 =
       Inr [(Timestamp 1900 1 31, 2), (Timestamp 1900 2 28, 0), (Timestamp 1900 3 31, 0),
            (Timestamp 1900 4 30, 4)]
   \<and> map (\<lambda>e. month_index (fst e))
         [(Timestamp 1900 1 31, 2::rat), (Timestamp 1900 2 28, 0), (Timestamp 1900 3 31, 0),
          (Timestamp 1900 4 30, 4)] =
       [Min (set (observed_months with_gap 1)) .. Max (set (observed_months with_gap 1))]"
proof -
  have rows: "product_rows with_gap 1 \<noteq> []" by code_simp
  have run: "product_series plain_sum with_gap 1 =
     Inr [(Timestamp 1900 1 31, 2), (Timestamp 1900 2 28, 0), (Timestamp 1900 3 31, 0),
          (Timestamp 1900 4 30, 4)]"
    by code_simp
  from aggregator_no_gaps [OF rows, of plain_sum] rows run show ?thesis by blast
qed

text \<open>
  Claim C8, as the code has it. Take a product with matching rows, a sum that is exact
  on small cells (as the int64 and the float64 sum are), and let the quantities of the
  matching rows with a valid month be small: integers whose magnitudes add up to less
  than \<open>2 ^ 53\<close>. Whenever resampling yields a series, its quantities add up to the
  quantities of the matching rows that have a valid month, a missing quantity counting
  as zero; when every matching row has a valid month, that is the sum over all matching
  rows. A series is yielded as soon as one matching row has a valid month.
\<close>

theorem mass_conservation_valid_months:
  assumes "product_rows df pc \<noteq> []"
    and "exact_on_small colsum"
    and "small_cells [QUANTITY r. r \<leftarrow> product_rows df pc, MONTH r \<noteq> None]"
  shows "((\<exists>r\<in>set (product_rows df pc). MONTH r \<noteq> None) \<longrightarrow>
            (\<exists>series. product_series colsum df pc = Inr series))
     \<and> (\<forall>series. product_series colsum df pc = Inr series \<longrightarrow>
           sum_list (map snd series) =
             sum_list [nan0 (QUANTITY r). r \<leftarrow> product_rows df pc, MONTH r \<noteq> None]
           \<and> ((\<forall>r\<in>set (product_rows df pc). MONTH r \<noteq> None) \<longrightarrow>
                sum_list (map snd series) =
                  sum_list [nan0 (QUANTITY r). r \<leftarrow> product_rows df pc]))"
proof (intro conjI allI impI)
  assume "\<exists>r\<in>set (product_rows df pc). MONTH r \<noteq> None"
  then show "\<exists>series. product_series colsum df pc = Inr series"
    using product_series_exists by blast
next
  fix series assume ps: "product_series colsum df pc = Inr series"
  from product_series_Inr[OF assms(1) ps]
  have ne: "observed_months df pc \<noteq> []" and eq: "series = bins colsum df pc" by simp_all
  from assms(3)
  have small: "small_cells (map QUANTITY (filter (\<lambda>r. MONTH r \<noteq> None) (product_rows df pc)))"
    by (simp add: concat_map_if)
  note total = bins_sum[OF ne assms(2) small]
  show "sum_list (map snd series) =
      sum_list [nan0 (QUANTITY r). r \<leftarrow> product_rows df pc, MONTH r \<noteq> None]"
    unfolding eq using total by (simp add: concat_map_if)
  assume "\<forall>r\<in>set (product_rows df pc). MONTH r \<noteq> None"
  then have "filter (\<lambda>r. MONTH r \<noteq> None) (product_rows df pc) = product_rows df pc"
    by (simp add: filter_id_conv)
  with total
  show "sum_list (map snd series) = sum_list [nan0 (QUANTITY r). r \<leftarrow> product_rows df pc]"
    unfolding eq by simp
qed

text \<open>Four rows of the product in two months, one without quantity: 1 + 2 + 0 + 3.\<close>

theorem mass_conservation_valid_months_witness:
  "product_rows with_gap 1 \<noteq> []
   \<and> [QUANTITY r. r \<leftarrow> product_rows with_gap 1, MONTH r \<noteq> None] =
       [Some 1, Some 2, None, Some 3]
   \<and> product_series plain_sum with_gap 1 =
       Inr [(Timestamp 1900 1 31, 2), (Timestamp 1900 2 28, 0), (Timestamp 1900 3 31, 0),
            (Timestamp 1900 4 30, 4)]
   \<and> sum_list (map snd [(Timestamp 1900 1 31, 2::rat), (Timestamp 1900 2 28, 0),
                         (Timestamp 1900 3 31, 0), (Timestamp 1900 4 30, 4)]) = 6
   \<and> sum_list [nan0 (QUANTITY r). r \<leftarrow> product_rows with_gap 1, MONTH r \<noteq> None] = 6
   \<and> sum_list [nan0 (QUANTITY r). r \<leftarrow> product_rows with_gap 1] = 6"
proof -
  have rows: "product_rows with_gap 1 \<noteq> []" by code_simp
  have cells: "[QUANTITY r. r \<leftarrow> product_rows with_gap 1, MONTH r \<noteq> None] =
     [Some 1, Some 2, None, Some 3]" by code_simp
  have small: "small_cells [QUANTITY r. r \<leftarrow> product_rows with_gap 1, MONTH r \<noteq> None]"
    unfolding cells by (simp add: small_cells_def nan0_def)
  have run: "product_series plain_sum with_gap 1 =
     Inr [(Timestamp 1900 1 31, 2), (Timestamp 1900 2 28, 0), (Timestamp 1900 3 31, 0),
          (Timestamp 1900 4 30, 4)]"
    by code_simp
  have valid: "\<forall>r\<in>set (product_rows with_gap 1). MONTH r \<noteq> None"
    by (simp add: product_rows_def with_gap_def mk_row_def)
  from mass_conservation_valid_months [OF rows plain_sum_exact small] rows cells run valid
  show ?thesis by simp
qed

text \<open>
  The claim as stated fails on a loaded table with an unparsable month: the row stays in
  the table with its quantity, and resampling leaves it out. It also fails outside the
  small range: two rows of one month with \<open>2 ^ 62\<close> each, in an int64 column, give a bin
  of \<open>- 2 ^ 63\<close>.
\<close>

theorem invalid_month_counterexample:
  "product_series plain_sum
     (load_sales_data [mk_raw 1001 ''widget'' ''Jan'' (Some 2),
                       mk_raw 1001 ''widget'' ''n/a'' (Some 5)]) 1001 =
     Inr [(Timestamp 1900 1 31, 2)]
   \<and> sum_list [nan0 (QUANTITY r). r \<leftarrow> product_rows
       (load_sales_data [mk_raw 1001 ''widget'' ''Jan'' (Some 2),
                         mk_raw 1001 ''widget'' ''n/a'' (Some 5)]) 1001] = 7
   \<and> product_series int64_sum
       [mk_row 1 ''widget'' (Some (Timestamp 1900 1 1)) (Some 4611686018427387904),
        mk_row 1 ''widget'' (Some (Timestamp 1900 1 1)) (Some 4611686018427387904)] 1 =
     Inr [(Timestamp 1900 1 31, - 9223372036854775808)]"
  by code_simp

section \<open>Season filter\<close>

text \<open>
  Claim C9. For each of the five seasons, filtering succeeds, and filtering the result
  again with the same season returns it unchanged.
\<close>

theorem filter_by_season_idempotent:
  "season \<in> set seasons \<Longrightarrow>
     \<exists>d. filter_by_season df season = Inr d \<and> filter_by_season d season = Inr d"
  by (auto simp: seasons_def filter_by_season_def SEASON_MONTHS_def)

theorem filter_by_season_idempotent_witness:
  "''Winter'' \<in> set seasons
   \<and> (\<exists>d. filter_by_season with_gap ''Winter'' = Inr d \<and> filter_by_season d ''Winter'' = Inr d
          \<and> map MONTH d = [Some (Timestamp 1900 12 1), Some (Timestamp 1900 1 1),
                           Some (Timestamp 1900 1 1)])"
proof -
  have s: "''Winter'' \<in> set seasons" by (simp add: seasons_def)
  have run: "filter_by_season with_gap ''Winter'' =
      Inr [mk_row 2 ''gadget'' (Some (Timestamp 1900 12 1)) (Some 9),
           mk_row 1 ''widget'' (Some (Timestamp 1900 1 1)) (Some 2),
           mk_row 1 ''widget'' (Some (Timestamp 1900 1 1)) None]"
    by code_simp
  from filter_by_season_idempotent [OF s, of with_gap] s run show ?thesis
    by (auto simp: mk_row_def)
qed

text \<open>
  Claim C10. For a season name that is none of the five, the lookup in
  \<^verbatim>\<open>SEASON_MONTHS\<close> fails and \<^verbatim>\<open>filter_by_season\<close> raises KeyError, whatever the table.
\<close>

theorem filter_by_season_unknown:
  "season \<notin> set seasons \<Longrightarrow> filter_by_season df season = Inl KeyError"
  by (simp add: seasons_def filter_by_season_def SEASON_MONTHS_def)

theorem filter_by_season_unknown_witness:
  "''Monsoon'' \<notin> set seasons \<and> filter_by_season [] ''Monsoon'' = Inl KeyError
   \<and> filter_by_season [mk_row 1 ''widget'' (Some (Timestamp 1900 1 1)) (Some 2)] ''winter'' = Inl KeyError"
  using filter_by_season_unknown [of "''Monsoon''" "[]"]
    filter_by_season_unknown [of "''winter''" "[mk_row 1 ''widget'' (Some (Timestamp 1900 1 1)) (Some 2)]"]
  by (simp add: seasons_def)

end
